theory Spec2Isabelle
  imports Complex_Main "HOL-Library.Multiset" "HOL-Library.Sublist"
begin

section \<open>JavaScript values used by the dashboard\<close>

text \<open>
  The two source files are the dashboard page (the React component \<open>Dashboard\<close> with
  its MQTT handlers, \<open>calculateStats\<close> and \<open>fetchHistory\<close>) and the route
  \<open>src/app/api/sensors/route.ts\<close> (the handler \<open>GET\<close>).

  A property read in JavaScript gives \<open>undefined\<close> for a missing key, \<open>null\<close>,
  or a value. The telemetry fields carry the types of the interface \<open>SensorData\<close>
  (numbers and strings); values of another type in a numeric or string field are not
  modelled.
\<close>

datatype 'a field = Undefined | Null | Val 'a

text \<open>
  A JavaScript number is an IEEE 754 double: not-a-number, the two infinities, or a finite
  value, kept here as the rational number it denotes. Negative zero is identified with
  zero: the program observes numbers only through \<open>toFixed\<close>, \<open>===\<close>, truthiness
  and arithmetic with a positive divisor, and none of them tells the two zeros apart.
\<close>

datatype jsnum = NaN | PInf | NInf | Fin rat

subsection \<open>Rounding to double precision\<close>

definition pow2 :: "int \<Rightarrow> rat" where
  "pow2 e = (if 0 \<le> e then 2 ^ nat e else 1 / 2 ^ nat (- e))"

fun bit_length :: "nat \<Rightarrow> nat" where
  "bit_length n = (if n = 0 then 0 else Suc (bit_length (n div 2)))"

declare bit_length.simps [simp del]

text \<open>\<open>ilog2 x\<close> is the binary exponent of a positive rational: \<open>2^e \<le> x < 2^(e+1)\<close>.\<close>

definition ilog2 :: "rat \<Rightarrow> int" where
  "ilog2 x =
     (if 1 \<le> x then int (bit_length (nat \<lfloor>x\<rfloor>)) - 1
      else let j = int (bit_length (nat \<lfloor>1 / x\<rfloor>)) - 1
           in if x * pow2 j = 1 then - j else - j - 1)"

definition round_half_even :: "rat \<Rightarrow> int" where
  "round_half_even x =
     (let f = \<lfloor>x\<rfloor>; d = x - of_int f
      in if d < 1 / 2 then f else if 1 / 2 < d then f + 1 else if even f then f else f + 1)"

text \<open>
  Round to nearest, ties to even, with a 53-bit significand; the exponent of the last
  place is at least \<open>-1074\<close> (subnormal numbers), and a result of magnitude
  \<open>2^1024\<close> or more is an infinity. After rounding \<open>\<bar>m\<bar> \<le> 2^53\<close>, so the
  magnitude reaches \<open>2^1024\<close> exactly when \<open>971 < e\<close>, or \<open>e = 971\<close> and
  \<open>\<bar>m\<bar> = 2^53 = 9007199254740992\<close>.
\<close>

definition double_round :: "rat \<Rightarrow> jsnum" where
  "double_round x =
     (if x = 0 then Fin 0
      else let e = max (ilog2 \<bar>x\<bar> - 52) (- 1074);
               m = round_half_even (x / pow2 e)
           in if 971 < e \<or> (e = 971 \<and> \<bar>m\<bar> = 9007199254740992)
              then (if x < 0 then NInf else PInf)
              else Fin (of_int m * pow2 e))"

definition is_double :: "rat \<Rightarrow> bool" where
  "is_double x = (double_round x = Fin x)"

subsection \<open>Arithmetic, comparison, truthiness\<close>

text \<open>The operator \<open>+\<close> on two numbers.\<close>

fun js_add :: "jsnum \<Rightarrow> jsnum \<Rightarrow> jsnum" where
  "js_add NaN _ = NaN"
| "js_add _ NaN = NaN"
| "js_add PInf NInf = NaN"
| "js_add NInf PInf = NaN"
| "js_add PInf _ = PInf"
| "js_add _ PInf = PInf"
| "js_add NInf _ = NInf"
| "js_add _ NInf = NInf"
| "js_add (Fin a) (Fin b) = double_round (a + b)"

text \<open>The operator \<open>/\<close> with an array length as divisor.\<close>

fun js_div :: "jsnum \<Rightarrow> nat \<Rightarrow> jsnum" where
  "js_div NaN n = NaN"
| "js_div PInf n = PInf"
| "js_div NInf n = NInf"
| "js_div (Fin a) n =
     (if n = 0 then (if a = 0 then NaN else if 0 < a then PInf else NInf)
      else double_round (a / of_nat n))"

text \<open>The relation \<open><\<close> on numbers; a comparison with \<open>NaN\<close> is false.\<close>

fun js_less :: "jsnum \<Rightarrow> jsnum \<Rightarrow> bool" where
  "js_less NaN _ = False"
| "js_less _ NaN = False"
| "js_less _ NInf = False"
| "js_less NInf _ = True"
| "js_less PInf _ = False"
| "js_less _ PInf = True"
| "js_less (Fin a) (Fin b) = (a < b)"

text \<open>\<open>ToNumber\<close> of a numeric field: \<open>undefined\<close> is \<open>NaN\<close>, \<open>null\<close> is \<open>0\<close>.\<close>

fun to_number :: "jsnum field \<Rightarrow> jsnum" where
  "to_number Undefined = NaN"
| "to_number Null = Fin 0"
| "to_number (Val x) = x"

text \<open>\<open>ToBoolean\<close>: \<open>undefined\<close>, \<open>null\<close>, \<open>0\<close>, \<open>NaN\<close> and the empty string are falsy.\<close>

fun truthy_number :: "jsnum field \<Rightarrow> bool" where
  "truthy_number Undefined = False"
| "truthy_number Null = False"
| "truthy_number (Val NaN) = False"
| "truthy_number (Val (Fin a)) = (a \<noteq> 0)"
| "truthy_number (Val _) = True"

fun truthy_string :: "string field \<Rightarrow> bool" where
  "truthy_string (Val s) = (s \<noteq> [])"
| "truthy_string _ = False"

text \<open>\<open>a || b\<close> with a string field on the left and a string on the right.\<close>

definition or_else :: "string field \<Rightarrow> string \<Rightarrow> string" where
  "or_else a b = (case a of Val s \<Rightarrow> (if s \<noteq> [] then s else b) | _ \<Rightarrow> b)"

subsection \<open>\<open>Math.min\<close> and \<open>Math.max\<close>\<close>

text \<open>
  \<open>Math.min(...xs)\<close> starts from \<open>+Infinity\<close>, returns \<open>NaN\<close> at the first
  \<open>NaN\<close> argument and otherwise keeps the lowest argument; \<open>Math.max\<close> is dual.
\<close>

fun min_loop :: "jsnum \<Rightarrow> jsnum list \<Rightarrow> jsnum" where
  "min_loop lowest [] = lowest"
| "min_loop lowest (x # xs) =
     (if x = NaN then NaN else min_loop (if js_less x lowest then x else lowest) xs)"

definition Math_min :: "jsnum list \<Rightarrow> jsnum" where
  "Math_min xs = min_loop PInf xs"

fun max_loop :: "jsnum \<Rightarrow> jsnum list \<Rightarrow> jsnum" where
  "max_loop highest [] = highest"
| "max_loop highest (x # xs) =
     (if x = NaN then NaN else max_loop (if js_less highest x then x else highest) xs)"

definition Math_max :: "jsnum list \<Rightarrow> jsnum" where
  "Math_max xs = max_loop NInf xs"

subsection \<open>\<open>Number.prototype.toFixed(1)\<close>\<close>

definition digit_char :: "nat \<Rightarrow> char" where
  "digit_char d = ''0123456789'' ! (d mod 10)"

fun digits_of :: "nat \<Rightarrow> string" where
  "digits_of n =
     (if n < 10 then [digit_char n] else digits_of (n div 10) @ [digit_char (n mod 10)])"

declare digits_of.simps [simp del]

text \<open>
  For \<open>0 \<le> a < 10^21\<close>: the integer \<open>n\<close> with \<open>n / 10\<close> nearest to \<open>a\<close>
  (the larger one of two), written in decimal, padded to two digits, with the point
  before the last digit.
\<close>

definition fixed_digits :: "rat \<Rightarrow> string" where
  "fixed_digits a =
     (let n = nat \<lfloor>a * 10 + 1 / 2\<rfloor>;
          m = digits_of n;
          m = (if length m \<le> 1 then replicate (2 - length m) (CHR ''0'') @ m else m);
          k = length m
      in take (k - 1) m @ ''.'' @ drop (k - 1) m)"

text \<open>
  From \<open>10^21\<close> on, \<open>toFixed\<close> returns \<open>Number::toString\<close>: the shortest decimal
  \<open>s\<close> with \<open>k\<close> digits such that \<open>s \<times> 10^(n-k)\<close> rounds to the number, in
  exponent notation. \<open>pick_digits a n0 k\<close> looks for such an \<open>s\<close> with \<open>k\<close>
  digits below \<open>10^n0\<close>, where \<open>n0\<close> is the number of digits of \<open>a\<close>; of two
  candidates it takes the closer one, the even one at a tie.
\<close>

definition pick_digits :: "rat \<Rightarrow> nat \<Rightarrow> nat \<Rightarrow> nat option" where
  "pick_digits a n0 k =
     (let t = 10 ^ (n0 - k);
          lo = nat \<lfloor>a / t\<rfloor>;
          hi = lo + 1;
          oklo = (double_round (of_nat lo * t) = Fin a);
          okhi = (hi < 10 ^ k \<and> double_round (of_nat hi * t) = Fin a);
          dlo = a - of_nat lo * t;
          dhi = of_nat hi * t - a
      in if oklo \<and> okhi
         then Some (if dlo < dhi then lo else if dhi < dlo then hi
                    else if even lo then lo else hi)
         else if oklo then Some lo
         else if okhi then Some hi
         else None)"

text \<open>Seventeen digits always determine a double, so the first equation is never reached
  from \<open>[1..<18]\<close> on a double.\<close>

fun shortest_digits :: "rat \<Rightarrow> nat \<Rightarrow> nat list \<Rightarrow> nat" where
  "shortest_digits a n0 [] = nat \<lfloor>a / 10 ^ (n0 - 17)\<rfloor>"
| "shortest_digits a n0 (k # ks) =
     (case pick_digits a n0 k of Some s \<Rightarrow> s | None \<Rightarrow> shortest_digits a n0 ks)"

definition exponent_string :: "rat \<Rightarrow> string" where
  "exponent_string a =
     (let n0 = length (digits_of (nat \<lfloor>a\<rfloor>))
      in if double_round (10 ^ n0) = Fin a then ''1e+'' @ digits_of n0
         else let s = digits_of (shortest_digits a n0 [1..<18])
              in (if length s = 1 then s else take 1 s @ ''.'' @ drop 1 s)
                 @ ''e+'' @ digits_of (n0 - 1))"

fun toFixed1 :: "jsnum \<Rightarrow> string" where
  "toFixed1 NaN = ''NaN''"
| "toFixed1 PInf = ''Infinity''"
| "toFixed1 NInf = ''-Infinity''"
| "toFixed1 (Fin x) =
     (let s = (if x < 0 then ''-'' else '''');
          a = \<bar>x\<bar>
      in if 10 ^ 21 \<le> a then s @ exponent_string a else s @ fixed_digits a)"

section \<open>The dashboard (client)\<close>

subsection \<open>Samples and statistics\<close>

text \<open>
  The interface \<open>SensorData\<close>. At run time \<open>temperature\<close>, \<open>humidity\<close> and
  \<open>light_value\<close> hold whatever the payload or the history row had under that key, and
  \<open>time\<close> is missing in the placeholder sample of the route.
\<close>

record SensorData =
  temperature :: "jsnum field"
  humidity :: "jsnum field"
  light_status :: string
  light_value :: "jsnum field"
  timestamp :: string
  time :: "string field"

text \<open>
  One metric of the interface \<open>Stats\<close>, with its fields \<open>min\<close>, \<open>max\<close> and
  \<open>avg\<close>; they are strings in the dashboard and strings or \<open>null\<close> in the route.
\<close>

record 'a metric_stats =
  min_stat :: 'a
  max_stat :: 'a
  avg_stat :: 'a

record 'a Stats =
  temp :: "'a metric_stats"
  humid :: "'a metric_stats"

text \<open>\<open>values.reduce((a, b) => a + b, 0)\<close>: the sum from the left, starting at \<open>0\<close>.\<close>

definition reduce_sum :: "jsnum field list \<Rightarrow> jsnum" where
  "reduce_sum vs = foldl (\<lambda>a b. js_add a (to_number b)) (Fin 0) vs"

text \<open>The three fields of one metric of \<open>calculateStats\<close>, from the filtered values.\<close>

definition metric_of :: "jsnum field list \<Rightarrow> string metric_stats" where
  "metric_of vs =
     \<lparr>min_stat = (if length vs \<noteq> 0 then toFixed1 (Math_min (map to_number vs)) else ''--''),
      max_stat = (if length vs \<noteq> 0 then toFixed1 (Math_max (map to_number vs)) else ''--''),
      avg_stat = (if length vs \<noteq> 0 then toFixed1 (js_div (reduce_sum vs) (length vs))
                  else ''--'')\<rparr>"

text \<open>The constants \<open>temps\<close> and \<open>humids\<close> of \<open>calculateStats\<close>.\<close>

definition temps :: "SensorData list \<Rightarrow> jsnum field list" where
  "temps data = map temperature (filter (\<lambda>r. temperature r \<noteq> Null) data)"

definition humids :: "SensorData list \<Rightarrow> jsnum field list" where
  "humids data = map humidity (filter (\<lambda>r. humidity r \<noteq> Null) data)"

definition calculateStats :: "SensorData list \<Rightarrow> string Stats" where
  "calculateStats data = \<lparr>temp = metric_of (temps data), humid = metric_of (humids data)\<rparr>"

subsection \<open>Component state\<close>

datatype ConnectionState = connecting | online | offline

text \<open>
  The React state of \<open>Dashboard\<close>, together with the two effects of its handlers
  outside that state: the lines written to the console and the topics subscribed to.
\<close>

datatype console_line = Log string | Error string

record Dashboard =
  data :: SensorData
  chartData :: "SensorData list"
  stats :: "string Stats"
  status :: ConnectionState
  messageCount :: nat
  console :: "console_line list"
  subscriptions :: "string list"

definition initial :: Dashboard where
  "initial =
     \<lparr>data = \<lparr>temperature = Null, humidity = Null, light_status = ''unknown'',
               light_value = Val (Fin 0), timestamp = ''-'', time = Val ''-''\<rparr>,
      chartData = [],
      stats = \<lparr>temp = \<lparr>min_stat = ''--'', max_stat = ''--'', avg_stat = ''--''\<rparr>,
               humid = \<lparr>min_stat = ''--'', max_stat = ''--'', avg_stat = ''--''\<rparr>\<rparr>,
      status = connecting,
      messageCount = 0,
      console = [],
      subscriptions = []\<rparr>"

subsection \<open>The MQTT handlers\<close>

text \<open>The fields the message handler reads from the parsed payload.\<close>

record payload =
  p_temperature :: "jsnum field"
  p_humidity :: "jsnum field"
  p_light_status :: "string field"
  p_light_value :: "jsnum field"
  p_timestamp :: "string field"

text \<open>
  The outcome of \<open>JSON.parse(message.toString())\<close>: a \<open>SyntaxError\<close>, \<open>null\<close>
  (reading a property of it throws a \<open>TypeError\<close>), an object, or another value
  (a number, a string, a boolean), all of whose telemetry properties are \<open>undefined\<close>.
\<close>

datatype json = SyntaxError | JNull | JObject payload | JOther

definition no_fields :: payload where
  "no_fields = \<lparr>p_temperature = Undefined, p_humidity = Undefined, p_light_status = Undefined,
                 p_light_value = Undefined, p_timestamp = Undefined\<rparr>"

text \<open>The two clock readings of the handler, already formatted for the locale.\<close>

record clock =
  now_locale_string :: string
  now_locale_time :: string

definition newData :: "payload \<Rightarrow> clock \<Rightarrow> SensorData" where
  "newData p c =
     \<lparr>temperature = p_temperature p,
      humidity = p_humidity p,
      light_status = or_else (p_light_status p)
                       (if p_light_value p = Val (Fin 0) then ''dark'' else ''bright''),
      light_value = p_light_value p,
      timestamp = or_else (p_timestamp p) (now_locale_string c),
      time = Val (now_locale_time c)\<rparr>"

text \<open>\<open>xs.slice(-n)\<close>: the last \<open>n\<close> elements, all of them when there are fewer.\<close>

definition slice_last :: "nat \<Rightarrow> 'a list \<Rightarrow> 'a list" where
  "slice_last n xs = drop (length xs - n) xs"

text \<open>The rest of the \<open>try\<close> block once \<open>newData\<close> is built: the three state
  updates, with the statistics recomputed from the updated window.\<close>

definition accept :: "Dashboard \<Rightarrow> SensorData \<Rightarrow> Dashboard" where
  "accept st d =
     (let updated = slice_last 100 (chartData st @ [d])
      in st\<lparr>data := d,
            messageCount := messageCount st + 1,
            chartData := updated,
            stats := calculateStats updated\<rparr>)"

text \<open>The \<open>catch\<close> block of the message handler.\<close>

definition parse_failed :: "Dashboard \<Rightarrow> Dashboard" where
  "parse_failed st = st\<lparr>console := console st @ [Error ''Failed to parse message:'']\<rparr>"

definition on_message :: "(string \<Rightarrow> json) \<Rightarrow> Dashboard \<Rightarrow> string \<Rightarrow> clock \<Rightarrow> Dashboard" where
  "on_message JSON_parse st message c =
     (case JSON_parse message of
        SyntaxError \<Rightarrow> parse_failed st
      | JNull \<Rightarrow> parse_failed st
      | JObject p \<Rightarrow> accept st (newData p c)
      | JOther \<Rightarrow> accept st (newData no_fields c))"

definition on_connect :: "Dashboard \<Rightarrow> Dashboard" where
  "on_connect st =
     st\<lparr>console := console st @ [Log ''Connected to MQTT broker''],
        status := online,
        subscriptions := subscriptions st @ [''sensors/data'']\<rparr>"

definition on_error :: "Dashboard \<Rightarrow> Dashboard" where
  "on_error st = st\<lparr>console := console st @ [Error ''MQTT error:''], status := offline\<rparr>"

definition on_close :: "Dashboard \<Rightarrow> Dashboard" where
  "on_close st = st\<lparr>status := offline\<rparr>"

text \<open>The events of the MQTT client; a message comes with its topic, its text and the
  clock readings taken while it is handled.\<close>

datatype event = Connect | Message string string clock | MqttError | Close

fun handle :: "(string \<Rightarrow> json) \<Rightarrow> Dashboard \<Rightarrow> event \<Rightarrow> Dashboard" where
  "handle JSON_parse st Connect = on_connect st"
| "handle JSON_parse st (Message topic message c) = on_message JSON_parse st message c"
| "handle JSON_parse st MqttError = on_error st"
| "handle JSON_parse st Close = on_close st"

definition run :: "(string \<Rightarrow> json) \<Rightarrow> Dashboard \<Rightarrow> event list \<Rightarrow> Dashboard" where
  "run JSON_parse st evs = foldl (handle JSON_parse) st evs"

text \<open>The samples a sequence of events appends to the window, in arrival order.\<close>

fun appended :: "(string \<Rightarrow> json) \<Rightarrow> event list \<Rightarrow> SensorData list" where
  "appended JSON_parse [] = []"
| "appended JSON_parse (Message topic message c # evs) =
     (case JSON_parse message of
        JObject p \<Rightarrow> newData p c # appended JSON_parse evs
      | JOther \<Rightarrow> newData no_fields c # appended JSON_parse evs
      | _ \<Rightarrow> appended JSON_parse evs)"
| "appended JSON_parse (_ # evs) = appended JSON_parse evs"

section \<open>The route \<open>/api/sensors\<close> (server)\<close>

text \<open>
  The object \<open>tableMeta.toObject(row)\<close> of one result row; \<open>'t\<close> is the type of its
  \<open>_time\<close>.
\<close>

record 't row =
  r_time :: 't
  r_temperature :: "jsnum field"
  r_humidity :: "jsnum field"
  r_light_status :: "string field"
  r_light_value :: "jsnum field"

text \<open>
  What \<open>queryApi.queryRows\<close> does with the observer: it passes rows to \<open>next\<close> and
  then calls either \<open>complete\<close> or \<open>error\<close>.
\<close>

datatype 't query_outcome = Completed "'t row list" | Errored "'t row list"

text \<open>
  The surroundings of the handler: the bucket name, the query service, and the two
  locale formats of a time (\<open>toLocaleString\<close> and \<open>toLocaleTimeString\<close> for
  \<open>en-IN\<close>, \<open>Asia/Kolkata\<close>).
\<close>

record 't influx =
  INFLUX_BUCKET :: string
  queryRows :: "string \<Rightarrow> 't query_outcome"
  toLocaleString :: "'t \<Rightarrow> string"
  toLocaleTimeString :: "'t \<Rightarrow> string"

definition newline :: char where
  "newline = CHR 0x0A"

definition flux_query :: "string \<Rightarrow> string" where
  \<open>flux_query bucket =
     [newline] @ ''      from(bucket: "'' @ bucket @ ''")'' @
     [newline] @ ''        |> range(start: -6h)'' @
     [newline] @ ''        |> filter(fn: (r) => r._measurement == "environment")'' @
     [newline] @ ''        |> pivot(rowKey: ["_time"], columnKey: ["_field"], valueColumn: "_value")'' @
     [newline] @ ''        |> sort(columns: ["_time"], desc: true)'' @
     [newline] @ ''        |> limit(n: 500)'' @
     [newline] @ ''    ''\<close>

text \<open>The callback \<open>next\<close>: one row becomes one entry of \<open>results\<close>.\<close>

definition to_result :: "'t influx \<Rightarrow> 't row \<Rightarrow> SensorData" where
  "to_result env r =
     \<lparr>temperature = r_temperature r,
      humidity = r_humidity r,
      light_status = or_else (r_light_status r) ''unknown'',
      light_value = r_light_value r,
      timestamp = toLocaleString env (r_time r),
      time = Val (toLocaleTimeString env (r_time r))\<rparr>"

definition route_metric_of :: "jsnum field list \<Rightarrow> string option metric_stats" where
  "route_metric_of vs =
     \<lparr>min_stat = (if length vs \<noteq> 0 then Some (toFixed1 (Math_min (map to_number vs))) else None),
      max_stat = (if length vs \<noteq> 0 then Some (toFixed1 (Math_max (map to_number vs))) else None),
      avg_stat = (if length vs \<noteq> 0 then Some (toFixed1 (js_div (reduce_sum vs) (length vs)))
                  else None)\<rparr>"

text \<open>The constants \<open>temps\<close> and \<open>humids\<close> of the route, which keep the truthy
  values.\<close>

definition route_temps :: "SensorData list \<Rightarrow> jsnum field list" where
  "route_temps results = map temperature (filter (\<lambda>r. truthy_number (temperature r)) results)"

definition route_humids :: "SensorData list \<Rightarrow> jsnum field list" where
  "route_humids results = map humidity (filter (\<lambda>r. truthy_number (humidity r)) results)"

definition route_stats :: "SensorData list \<Rightarrow> string option Stats" where
  "route_stats results =
     \<lparr>temp = route_metric_of (route_temps results),
      humid = route_metric_of (route_humids results)\<rparr>"

definition placeholder :: SensorData where
  "placeholder =
     \<lparr>temperature = Null, humidity = Null, light_status = ''unknown'',
      light_value = Undefined, timestamp = ''-'', time = Undefined\<rparr>"

record snapshot =
  res_current :: SensorData
  res_history :: "SensorData list"
  res_chartData :: "SensorData list"
  res_stats :: "string option Stats"

text \<open>\<open>NextResponse.json\<close>: an error body with its HTTP status, or the snapshot.\<close>

datatype response = Failure string nat | Success snapshot

text \<open>The result of one call of \<open>GET\<close>: the response, the queries sent to the query
  service, and the console lines.\<close>

record GET_result =
  response :: response
  queries :: "string list"
  server_console :: "console_line list"

definition GET :: "'t influx \<Rightarrow> GET_result" where
  "GET env =
     (let query = flux_query (INFLUX_BUCKET env)
      in case queryRows env query of
           Errored rows \<Rightarrow>
             \<lparr>response = Failure ''Failed to fetch data'' 500,
              queries = [query],
              server_console = [Error ''InfluxDB error:'']\<rparr>
         | Completed rows \<Rightarrow>
             (let results = map (to_result env) rows;
                  chartData = rev results
              in \<lparr>response = Success
                     \<lparr>res_current = (case results of [] \<Rightarrow> placeholder | r # _ \<Rightarrow> r),
                      res_history = take 20 results,
                      res_chartData = chartData,
                      res_stats = route_stats results\<rparr>,
                  queries = [query],
                  server_console = []\<rparr>))"

section \<open>The history bootstrap of the dashboard\<close>

text \<open>
  A number written by \<open>JSON.stringify\<close> and read back: \<open>NaN\<close> and the infinities
  become \<open>null\<close>, a missing key stays missing, every other number is unchanged.
\<close>

fun json_number :: "jsnum field \<Rightarrow> jsnum field" where
  "json_number (Val (Fin a)) = Val (Fin a)"
| "json_number (Val _) = Null"
| "json_number Null = Null"
| "json_number Undefined = Undefined"

definition via_json :: "SensorData \<Rightarrow> SensorData" where
  "via_json d =
     d\<lparr>temperature := json_number (temperature d),
       humidity := json_number (humidity d),
       light_value := json_number (light_value d)\<rparr>"

text \<open>The two properties \<open>fetchHistory\<close> reads from the body; \<open>None\<close> is
  \<open>undefined\<close>.\<close>

record body =
  b_chartData :: "SensorData list option"
  b_current :: "SensorData option"

fun body_of :: "response \<Rightarrow> body" where
  "body_of (Failure msg code) = \<lparr>b_chartData = None, b_current = None\<rparr>"
| "body_of (Success s) =
     \<lparr>b_chartData = Some (map via_json (res_chartData s)),
      b_current = Some (via_json (res_current s))\<rparr>"

text \<open>\<open>fetch\<close> and \<open>res.json()\<close> either throw or give a body.\<close>

datatype fetched = Rejected | Resolved body

fun fetchHistory :: "Dashboard \<Rightarrow> fetched \<Rightarrow> Dashboard" where
  "fetchHistory st Rejected =
     st\<lparr>console := console st @ [Error ''Failed to fetch history:'']\<rparr>"
| "fetchHistory st (Resolved json) =
     (let st1 = (case b_chartData json of
                   Some cd \<Rightarrow> st\<lparr>chartData := cd, stats := calculateStats cd\<rparr>
                 | None \<Rightarrow> st)
      in case b_current json of
           Some c \<Rightarrow> st1\<lparr>data := c\<rparr>
         | None \<Rightarrow> st1)"

section \<open>Sessions of the dashboard\<close>





section \<open>Notions used in the statements\<close>

text \<open>
  \<open>sum_exact acc vs\<close>: every value of \<open>vs\<close> is a finite number and no partial sum
  of \<open>reduce_sum\<close>, started at \<open>acc\<close>, is changed by rounding.
\<close>

fun sum_exact :: "rat \<Rightarrow> jsnum field list \<Rightarrow> bool" where
  "sum_exact acc [] = True"
| "sum_exact acc (Val (Fin b) # vs) =
     (double_round (acc + b) = Fin (acc + b) \<and> sum_exact (acc + b) vs)"
| "sum_exact acc (_ # vs) = False"

fun finite_value :: "jsnum field \<Rightarrow> rat" where
  "finite_value (Val (Fin b)) = b"
| "finite_value _ = 0"

text \<open>One step of \<open>min_loop\<close> and of \<open>max_loop\<close>, with \<open>NaN\<close> absorbing.\<close>

definition lower :: "jsnum \<Rightarrow> jsnum \<Rightarrow> jsnum" where
  "lower x lowest =
     (if x = NaN \<or> lowest = NaN then NaN else if js_less x lowest then x else lowest)"

definition higher :: "jsnum \<Rightarrow> jsnum \<Rightarrow> jsnum" where
  "higher x highest =
     (if x = NaN \<or> highest = NaN then NaN else if js_less highest x then x else highest)"

text \<open>A sample that carries a temperature reading only, for concrete runs.\<close>

definition reading :: "rat \<Rightarrow> SensorData" where
  "reading t =
     \<lparr>temperature = Val (Fin t), humidity = Null, light_status = ''bright'',
      light_value = Val (Fin 1), timestamp = ''-'', time = Val ''-''\<rparr>"

section \<open>Evaluation rules\<close>

lemma bit_length_0 [simp]: "bit_length 0 = 0"
  by (simp add: bit_length.simps)

lemma bit_length_numeral [simp]:
  "bit_length (numeral k) = Suc (bit_length (numeral k div 2))"
  by (subst bit_length.simps) simp

lemma bit_length_1 [simp]: "bit_length (Suc 0) = 1"
  by (simp add: bit_length.simps[of "Suc 0"])

lemma floor_rat_divide_numeral [simp]:
  "\<lfloor>(numeral a :: rat) / numeral b\<rfloor> = numeral a div numeral b"
  by (metis floor_divide_of_int_eq of_int_numeral)

lemma floor_rat_one_divide_numeral [simp]:
  "\<lfloor>(1 :: rat) / numeral b\<rfloor> = 1 div numeral b"
  by (metis floor_divide_of_int_eq of_int_1 of_int_numeral)

lemma floor_rat_minus_divide_numeral [simp]:
  "\<lfloor>- ((numeral a :: rat) / numeral b)\<rfloor> = - numeral a div numeral b"
  by (metis divide_minus_left floor_divide_of_int_eq of_int_neg_numeral of_int_numeral)

lemma digits_of_numeral [simp]:
  "digits_of (numeral k) =
     (if (numeral k :: nat) < 10 then [digit_char (numeral k)]
      else digits_of (numeral k div 10) @ [digit_char (numeral k mod 10)])"
  by (subst digits_of.simps) simp

lemma digits_of_0 [simp]: "digits_of 0 = ''0''"
  by (simp add: digits_of.simps digit_char_def)

lemma digits_of_1 [simp]: "digits_of (Suc 0) = ''1''"
  by (simp add: digits_of.simps digit_char_def)

lemmas number_eval =
  double_round_def ilog2_def pow2_def round_half_even_def Let_def fixed_digits_def
  digit_char_def is_double_def

section \<open>Properties of the rounding function\<close>

text \<open>
  The binary exponent brackets its argument, the rounded significand is within one half of
  the exact one, and a finite result of \<open>double_round\<close> lies within half a unit in the
  last place of its argument and has the format of a double: a significand of at most 53
  bits, an exponent between \<open>-1074\<close> and \<open>971\<close>, and a magnitude below
  \<open>2^1024\<close>.
\<close>

lemma bit_length_bounds:
  "0 < n \<Longrightarrow> 2 ^ (bit_length n - 1) \<le> n \<and> n < 2 ^ bit_length n"
proof (induction n rule: bit_length.induct)
  case (1 n)
  show ?case
  proof (cases "n div 2 = 0")
    case True
    with "1.prems" have "n = 1" by presburger
    then show ?thesis by simp
  next
    case False
    then have pos: "0 < n div 2" by simp
    from "1.prems" have ne: "n \<noteq> 0" by simp
    from "1.IH" [OF ne pos]
    have lo: "2 ^ (bit_length (n div 2) - 1) \<le> n div 2"
      and hi: "n div 2 < 2 ^ bit_length (n div 2)"
      by simp_all
    have bl: "bit_length n = Suc (bit_length (n div 2))"
      using ne by (subst bit_length.simps) simp
    have b1: "1 \<le> bit_length (n div 2)"
      using pos by (subst bit_length.simps) simp
    then have "(2::nat) ^ bit_length (n div 2) = 2 * 2 ^ (bit_length (n div 2) - 1)"
      by (cases "bit_length (n div 2)") simp_all
    with lo have "2 ^ bit_length (n div 2) \<le> 2 * (n div 2)" by simp
    also have "\<dots> \<le> n" by simp
    finally have a: "2 ^ (bit_length n - 1) \<le> n" by (simp add: bl)
    from hi have "2 * (n div 2) + 1 < 2 * 2 ^ bit_length (n div 2)" by simp
    moreover have "n \<le> 2 * (n div 2) + 1" by presburger
    ultimately have b: "n < 2 ^ bit_length n" by (simp add: bl)
    from a b show ?thesis ..
  qed
qed

lemma round_half_even_near: "\<bar>of_int (round_half_even x) - x\<bar> \<le> 1 / 2"
proof -
  define f where "f = \<lfloor>x\<rfloor>"
  have lo: "of_int f \<le> x" and hi: "x < of_int f + 1"
    unfolding f_def by linarith+
  have "round_half_even x =
          (if x - of_int f < 1 / 2 then f else if 1 / 2 < x - of_int f then f + 1
           else if even f then f else f + 1)"
    by (simp add: round_half_even_def Let_def f_def)
  with lo hi show ?thesis
    by (simp add: abs_if split: if_splits)
qed

lemma round_half_even_of_int [simp]: "round_half_even (of_int k) = k"
  by (simp add: round_half_even_def)

lemma pow2_pos [simp]: "0 < pow2 e"
  by (simp add: pow2_def)

lemma pow2_nonzero [simp]: "pow2 e \<noteq> 0"
  by (simp add: pow2_def)

lemma pow2_add: "pow2 (a + b) = pow2 a * pow2 b"
  by (simp add: pow2_def power_int_add [where x = "2::rat", symmetric] power_int_def nat_add_distrib)
     (auto simp: field_simps nat_diff_distrib' power_add [symmetric] simp flip: power_add)


lemma pow2_nat: "pow2 (int n) = 2 ^ n"
  by (simp add: pow2_def)

lemma pow2_neg: "pow2 (- e) = 1 / pow2 e"
  using pow2_add [of "- e" e] by (simp add: pow2_def field_simps)

lemma pow2_succ: "pow2 (e + 1) = 2 * pow2 e"
  using pow2_add [of e 1] by (simp add: pow2_def)

lemma ilog2_bounds:
  assumes "0 < x"
  shows "pow2 (ilog2 x) \<le> x \<and> x < pow2 (ilog2 x + 1)"
proof (cases "1 \<le> x")
  case True
  define n where "n = nat \<lfloor>x\<rfloor>"
  define b where "b = bit_length n"
  from True have fl: "1 \<le> \<lfloor>x\<rfloor>" by simp
  then have npos: "0 < n" by (simp add: n_def)
  from fl have n_eq: "(of_nat n :: rat) = of_int \<lfloor>x\<rfloor>" by (simp add: n_def)
  from bit_length_bounds [OF npos]
  have lo: "2 ^ (b - 1) \<le> n" and hi: "n < 2 ^ b" by (simp_all add: b_def)
  from hi npos have bpos: "1 \<le> b" by (cases b) simp_all
  have il: "ilog2 x = int (b - 1)"
    using True bpos by (simp add: ilog2_def n_def b_def)
  have "(2::rat) ^ (b - 1) \<le> of_nat n"
    using lo by (metis of_nat_le_iff of_nat_numeral of_nat_power)
  also have "\<dots> \<le> x" by (simp add: n_eq)
  finally have a: "pow2 (ilog2 x) \<le> x" by (simp add: il pow2_nat)
  have "x < of_nat n + 1" by (simp add: n_eq) linarith
  also have "\<dots> \<le> 2 ^ b"
  proof -
    from hi have "n + 1 \<le> 2 ^ b" by simp
    then have "(of_nat (n + 1) :: rat) \<le> of_nat (2 ^ b)" by (simp only: of_nat_le_iff)
    then show ?thesis by simp
  qed
  finally have "x < 2 ^ b" .
  moreover have "pow2 (ilog2 x + 1) = 2 ^ b"
    using bpos by (cases b) (simp_all add: il pow2_succ pow2_nat)
  ultimately show ?thesis using a by simp
next
  case False
  define y where "y = 1 / x"
  define n where "n = nat \<lfloor>y\<rfloor>"
  define b where "b = bit_length n"
  define P :: rat where "P = 2 ^ (b - 1)"
  from False assms have y1: "1 < y" by (simp add: y_def)
  then have fl: "1 \<le> \<lfloor>y\<rfloor>" by simp
  then have npos: "0 < n" by (simp add: n_def)
  from fl have n_eq: "(of_nat n :: rat) = of_int \<lfloor>y\<rfloor>" by (simp add: n_def)
  from bit_length_bounds [OF npos]
  have lo: "2 ^ (b - 1) \<le> n" and hi: "n < 2 ^ b" by (simp_all add: b_def)
  from hi npos have bpos: "1 \<le> b" by (cases b) simp_all
  have Ppos: "0 < P" by (simp add: P_def)
  have j: "pow2 (int b - 1) = P"
    using bpos by (simp add: P_def pow2_def nat_diff_distrib')
  have "P \<le> of_nat n"
    unfolding P_def using lo by (metis of_nat_le_iff of_nat_numeral of_nat_power)
  also have "\<dots> \<le> y" by (simp add: n_eq)
  finally have Py: "P \<le> y" .
  have "y < of_nat n + 1" by (simp add: n_eq) linarith
  also have "\<dots> \<le> 2 ^ b"
  proof -
    from hi have "n + 1 \<le> 2 ^ b" by simp
    then have "(of_nat (n + 1) :: rat) \<le> of_nat (2 ^ b)" by (simp only: of_nat_le_iff)
    then show ?thesis by simp
  qed
  also have "\<dots> = 2 * P" using bpos by (cases b) (simp_all add: P_def)
  finally have yP: "y < 2 * P" .
  from Py assms have xP: "x * P \<le> 1"
    by (simp add: y_def field_simps)
  from yP assms have xP2: "1 < x * (2 * P)"
    by (simp add: y_def field_simps)
  show ?thesis
  proof (cases "x * P = 1")
    case True
    then have il: "ilog2 x = - (int b - 1)"
      using False by (simp add: ilog2_def Let_def y_def [symmetric] n_def [symmetric]
          b_def [symmetric] j)
    from True Ppos have x_eq: "x = 1 / P" by (simp add: field_simps)
    have "pow2 (ilog2 x) = 1 / P" by (simp only: il pow2_neg j)
    moreover have "pow2 (ilog2 x + 1) = 2 / P" by (simp only: il pow2_succ pow2_neg j times_divide_eq_right mult_1_right)
    ultimately have "pow2 (ilog2 x) \<le> x" and "x < pow2 (ilog2 x + 1)"
      using Ppos by (simp_all only: x_eq) (simp_all add: field_simps)
    then show ?thesis ..
  next
    case ne: False
    then have il: "ilog2 x = - (int b - 1) - 1"
      using False by (simp add: ilog2_def Let_def y_def [symmetric] n_def [symmetric]
          b_def [symmetric] j)
    have "ilog2 x = - ((int b - 1) + 1)" by (simp add: il)
    then have p1: "pow2 (ilog2 x) = 1 / (2 * P)"
      by (simp only: pow2_neg pow2_succ j)
    have "ilog2 x + 1 = - (int b - 1)" by (simp add: il)
    then have p2: "pow2 (ilog2 x + 1) = 1 / P" by (simp only: pow2_neg j)
    from xP ne have lt: "x * P < 1" by simp
    have "pow2 (ilog2 x) \<le> x"
      unfolding p1 using xP2 Ppos by (simp add: field_simps)
    moreover have "x < pow2 (ilog2 x + 1)"
      unfolding p2 using lt Ppos by (simp add: field_simps)
    ultimately show ?thesis ..
  qed
qed

lemma double_round_near:
  assumes "double_round x = Fin y"
  shows "\<bar>y - x\<bar> \<le> pow2 (max (ilog2 \<bar>x\<bar> - 52) (- 1074)) / 2"
proof (cases "x = 0")
  case True
  with assms show ?thesis by (simp add: double_round_def less_imp_le)
next
  case False
  define e where "e = max (ilog2 \<bar>x\<bar> - 52) (- 1074)"
  define m where "m = round_half_even (x / pow2 e)"
  from assms False have y: "y = of_int m * pow2 e"
    by (simp add: double_round_def Let_def e_def [symmetric] m_def [symmetric] split: if_splits)
  have "\<bar>of_int m - x / pow2 e\<bar> \<le> 1 / 2"
    unfolding m_def by (rule round_half_even_near)
  then have "\<bar>of_int m - x / pow2 e\<bar> * pow2 e \<le> 1 / 2 * pow2 e"
    by (rule mult_right_mono) (simp add: less_imp_le)
  moreover have "\<bar>of_int m - x / pow2 e\<bar> * pow2 e = \<bar>y - x\<bar>"
  proof -
    have "\<bar>of_int m - x / pow2 e\<bar> * pow2 e = \<bar>(of_int m - x / pow2 e) * pow2 e\<bar>"
      by (simp add: abs_mult less_imp_le)
    also have "(of_int m - x / pow2 e) * pow2 e = y - x"
      by (simp add: y field_simps)
    finally show ?thesis .
  qed
  ultimately have "\<bar>y - x\<bar> \<le> 1 / 2 * pow2 e"
    by (simp only:)
  then show ?thesis
    by (simp add: e_def)
qed


lemma pow2_mono: "a \<le> b \<Longrightarrow> pow2 a \<le> pow2 b"
proof -
  assume "a \<le> b"
  then have "0 \<le> b - a" by simp
  then have "1 \<le> pow2 (b - a)" by (simp add: pow2_def)
  then have "pow2 a * 1 \<le> pow2 a * pow2 (b - a)"
    by (intro mult_left_mono) (simp_all add: less_imp_le)
  also have "\<dots> = pow2 b"
    using pow2_add [of a "b - a"] by simp
  finally show ?thesis by simp
qed

lemma double_round_format:
  assumes "double_round x = Fin y"
  shows "\<exists>m e. y = of_int m * pow2 e \<and> \<bar>m\<bar> \<le> 2 ^ 53 \<and> - 1074 \<le> e \<and> e \<le> 971
           \<and> \<bar>y\<bar> < 2 ^ 1024"
proof (cases "x = 0")
  case True
  with assms have "y = of_int 0 * pow2 0" by (simp add: double_round_def)
  moreover have "\<bar>y\<bar> < 2 ^ 1024" using True assms by (simp add: double_round_def)
  ultimately show ?thesis by (intro exI [of _ 0]) simp
next
  case False
  define L where "L = ilog2 \<bar>x\<bar>"
  define e where "e = max (L - 52) (- 1074)"
  define m where "m = round_half_even (x / pow2 e)"
  from assms False have y: "y = of_int m * pow2 e"
    and no: "\<not> (971 < e \<or> (e = 971 \<and> \<bar>m\<bar> = 9007199254740992))"
    by (simp_all add: double_round_def Let_def L_def [symmetric] e_def [symmetric]
        m_def [symmetric] split: if_splits)
  from False have "0 < \<bar>x\<bar>" by simp
  from ilog2_bounds [OF this] have "\<bar>x\<bar> < pow2 (L + 1)" by (simp add: L_def)
  also have "\<dots> \<le> pow2 (e + 53)" by (rule pow2_mono) (simp add: e_def)
  also have "\<dots> = pow2 e * 2 ^ 53"
    using pow2_add [of e 53] by (simp add: pow2_def)
  finally have "\<bar>x\<bar> / pow2 e < 2 ^ 53"
    by (simp add: field_simps)
  then have q: "\<bar>x / pow2 e\<bar> < 2 ^ 53"
    by (simp add: abs_divide less_imp_le)
  have "\<bar>of_int m - x / pow2 e\<bar> \<le> 1 / 2"
    unfolding m_def by (rule round_half_even_near)
  with q have "\<bar>(of_int m :: rat)\<bar> < 2 ^ 53 + 1"
    by linarith
  then have "\<bar>(of_int m :: rat)\<bar> < of_int (2 ^ 53 + 1)"
    by simp
  then have "(of_int \<bar>m\<bar> :: rat) < of_int (2 ^ 53 + 1)"
    by (simp only: of_int_abs)
  then have "\<bar>m\<bar> < 2 ^ 53 + 1"
    by (simp only: of_int_less_iff)
  then have mb: "\<bar>m\<bar> \<le> 2 ^ 53" by simp
  have e_lo: "- 1074 \<le> e" by (simp add: e_def)
  from no have e_hi: "e \<le> 971" by simp
  have "\<bar>y\<bar> < 2 ^ 1024"
  proof (cases "e = 971")
    case True
    with no mb have "\<bar>m\<bar> < 2 ^ 53" by simp
    then have "\<bar>m\<bar> \<le> 2 ^ 53 - 1" by simp
    then have "(of_int \<bar>m\<bar> :: rat) \<le> of_int (2 ^ 53 - 1)"
      by (simp only: of_int_le_iff)
    then have "\<bar>(of_int m :: rat)\<bar> \<le> 2 ^ 53 - 1" by simp
    then have "\<bar>of_int m :: rat\<bar> * pow2 971 \<le> (2 ^ 53 - 1) * pow2 971"
      by (intro mult_right_mono) (simp_all add: less_imp_le)
    also have "\<dots> < 2 ^ 53 * pow2 971"
      by (intro mult_strict_right_mono) simp_all
    also have "\<dots> = 2 ^ 1024"
      by (simp add: pow2_def flip: power_add)
    finally show ?thesis
      by (simp add: y True abs_mult less_imp_le)
  next
    case False
    with e_hi have "e \<le> 970" by simp
    then have "pow2 e \<le> pow2 970" by (rule pow2_mono)
    moreover from mb have "(of_int \<bar>m\<bar> :: rat) \<le> of_int (2 ^ 53)"
      by (simp only: of_int_le_iff)
    then have "\<bar>of_int m :: rat\<bar> \<le> 2 ^ 53" by simp
    ultimately have "\<bar>of_int m :: rat\<bar> * pow2 e \<le> 2 ^ 53 * pow2 970"
      by (intro mult_mono) (simp_all add: less_imp_le)
    also have "\<dots> < 2 ^ 1024"
      by (simp add: pow2_def flip: power_add)
    finally show ?thesis
      by (simp add: y abs_mult less_imp_le)
  qed
  with y mb e_lo e_hi show ?thesis by blast
qed

text \<open>Some values: the double next to \<open>0.1\<close>, ties that go to the even
  significand, and the overflow threshold.\<close>

lemma double_round_values:
  "double_round (1 / 10) = Fin (3602879701896397 / 36028797018963968)"
  "double_round (9007199254740993) = Fin 9007199254740992"
  "double_round (9007199254740995) = Fin 9007199254740996"
  "double_round (2 ^ 1024 - 2 ^ 970) = PInf"
  by (simp_all add: number_eval)

lemma toFixed1_values:
  "toFixed1 (Fin 0) = ''0.0''"
  "toFixed1 (Fin (1 / 4)) = ''0.3''"
  "toFixed1 (Fin (- 1 / 4)) = ''-0.3''"
  "toFixed1 (Fin (- 1 / 25)) = ''-0.0''"
  "toFixed1 (Fin (5756163273732915 / 281474976710656)) = ''20.4''"
  "toFixed1 (Fin 123456) = ''123456.0''"
  "toFixed1 (Fin (99999 / 100000)) = ''1.0''"
  by (simp_all add: number_eval)

text \<open>From \<open>10^21\<close> on the exponent notation: \<open>1e21\<close>, the double next to
  \<open>1e23\<close>, which is below it, and a number with seventeen digits.\<close>

lemma exponent_string_unfold:
  assumes "length (digits_of (nat \<lfloor>a\<rfloor>)) = n0"
  shows "exponent_string a =
     (if double_round (10 ^ n0) = Fin a then ''1e+'' @ digits_of n0
      else (if length (digits_of (shortest_digits a n0 [1..<18])) = 1
            then digits_of (shortest_digits a n0 [1..<18])
            else take 1 (digits_of (shortest_digits a n0 [1..<18])) @ ''.''
                 @ drop 1 (digits_of (shortest_digits a n0 [1..<18])))
           @ ''e+'' @ digits_of (n0 - 1))"
  using assms by (simp add: exponent_string_def Let_def)

lemma upt_1_18: "[1..<18] = [1, 2, 3, 4, 5, 6, 7, 8, 9, 10, 11, 12, 13, 14, 15, 16, 17 :: nat]"
  by (simp add: upt_rec)

lemma toFixed1_1e21: "toFixed1 (Fin 1000000000000000000000) = ''1e+21''"
proof -
  let ?a = "1000000000000000000000 :: rat"
  have n0: "length (digits_of (nat \<lfloor>?a\<rfloor>)) = 22"
    by (simp add: digit_char_def)
  have pd: "pick_digits ?a 22 (Suc 0) = Some 1"
    by (simp add: pick_digits_def number_eval)
  have sd: "shortest_digits ?a 22 [1..<18] = 1"
    unfolding upt_1_18 by (simp add: pd)
  have nr: "double_round (10 ^ 22) \<noteq> Fin ?a"
    by (simp add: number_eval)
  have "exponent_string ?a = ''1e+21''"
    unfolding exponent_string_unfold [OF n0] sd using nr by (simp add: digit_char_def)
  then show ?thesis
    by simp
qed

lemma toFixed1_1e23: "toFixed1 (Fin 99999999999999991611392) = ''1e+23''"
proof -
  have n0: "length (digits_of (nat \<lfloor>99999999999999991611392 :: rat\<rfloor>)) = 23"
    by (simp add: digit_char_def)
  have r: "double_round (10 ^ 23) = Fin 99999999999999991611392"
    by (simp add: number_eval)
  have "exponent_string 99999999999999991611392 = ''1e+23''"
    unfolding exponent_string_unfold [OF n0] using r by (simp add: digit_char_def)
  then show ?thesis
    by simp
qed

lemma toFixed1_big: "toFixed1 (Fin (- 12345678901234566097272832)) = ''-1.2345678901234566e+25''"
proof -
  let ?a = "12345678901234566097272832 :: rat"
  have n0: "length (digits_of (nat \<lfloor>?a\<rfloor>)) = 26"
    by (simp add: digit_char_def)
  have nr: "double_round (10 ^ 26) \<noteq> Fin ?a"
    by (simp add: number_eval)
  have pd: "pick_digits ?a 26 (Suc 0) = None" "pick_digits ?a 26 2 = None" "pick_digits ?a 26 3 = None"
    "pick_digits ?a 26 4 = None" "pick_digits ?a 26 5 = None" "pick_digits ?a 26 6 = None"
    "pick_digits ?a 26 7 = None" "pick_digits ?a 26 8 = None" "pick_digits ?a 26 9 = None"
    "pick_digits ?a 26 10 = None" "pick_digits ?a 26 11 = None" "pick_digits ?a 26 12 = None"
    "pick_digits ?a 26 13 = None" "pick_digits ?a 26 14 = None" "pick_digits ?a 26 15 = None"
    "pick_digits ?a 26 16 = None" "pick_digits ?a 26 17 = Some 12345678901234566"
    by (simp_all add: pick_digits_def number_eval)
  have sd: "shortest_digits ?a 26 [1..<18] = 12345678901234566"
    unfolding upt_1_18 by (simp add: pd)
  have "exponent_string ?a = ''1.2345678901234566e+25''"
    unfolding exponent_string_unfold [OF n0] sd using nr by (simp add: digit_char_def)
  then show ?thesis
    by simp
qed

section \<open>Connection state\<close>

lemma status_on_message [simp]: "status (on_message P st message c) = status st"
  by (simp add: on_message_def accept_def parse_failed_def Let_def split: json.splits)

text \<open>
  C6. The connection state starts at \<open>connecting\<close>; the handler of \<open>connect\<close> sets
  it to \<open>online\<close>, the handlers of \<open>error\<close> and \<open>close\<close> set it to
  \<open>offline\<close>; after \<open>error\<close> and \<open>close\<close>, in either order and from any state,
  it is \<open>offline\<close>, and messages do not change it.
\<close>

theorem connection_lifecycle:
  "status initial = connecting
   \<and> status (handle P st Connect) = online
   \<and> status (handle P st MqttError) = offline
   \<and> status (handle P st Close) = offline
   \<and> status (run P st [MqttError, Close]) = offline
   \<and> status (run P st [Close, MqttError]) = offline
   \<and> status (handle P st (Message topic message c)) = status st"
  by (simp add: initial_def run_def on_connect_def on_error_def on_close_def)

section \<open>Malformed messages\<close>

text \<open>
  C5. When \<open>JSON.parse\<close> throws on the text of a message, the handler only writes the
  parse error to the console: the message counter, the window, its statistics, the
  current sample and the connection state are those of before.
\<close>

theorem malformed_message_dropped:
  assumes "JSON_parse message = SyntaxError"
  shows "handle JSON_parse st (Message topic message c)
           = st\<lparr>console := console st @ [Error ''Failed to parse message:'']\<rparr>
         \<and> messageCount (handle JSON_parse st (Message topic message c)) = messageCount st
         \<and> chartData (handle JSON_parse st (Message topic message c)) = chartData st
         \<and> stats (handle JSON_parse st (Message topic message c)) = stats st
         \<and> data (handle JSON_parse st (Message topic message c)) = data st
         \<and> status (handle JSON_parse st (Message topic message c)) = status st"
  using assms by (simp add: on_message_def parse_failed_def)

theorem malformed_message_dropped_witness:
  "(\<lambda>m. if m = ''{}'' then JObject no_fields else SyntaxError) ''not json''
     = SyntaxError
   \<and> handle (\<lambda>m. if m = ''{}'' then JObject no_fields else SyntaxError)
        initial (Message ''sensors/data'' ''not json''
                  \<lparr>now_locale_string = ''1/1/2025, 10:00:00 am'', now_locale_time = ''10:00:00 am''\<rparr>)
     = initial\<lparr>console := [Error ''Failed to parse message:'']\<rparr>"
  using malformed_message_dropped
    [of "\<lambda>m. if m = ''{}'' then JObject no_fields else SyntaxError"
        "''not json''" initial "''sensors/data''"
        "\<lparr>now_locale_string = ''1/1/2025, 10:00:00 am'', now_locale_time = ''10:00:00 am''\<rparr>"]
  by (simp add: initial_def)

section \<open>The sliding window\<close>








lemma length_appended_single: "length (appended P [e]) \<le> 1"
  by (cases e) (simp_all split: json.splits)





section \<open>The snapshot of the route\<close>

lemma GET_queries: "queries (GET env) = [flux_query (INFLUX_BUCKET env)]"
  by (simp add: GET_def Let_def split: query_outcome.splits)

lemma GET_Completed:
  "queryRows env (flux_query (INFLUX_BUCKET env)) = Completed rows \<Longrightarrow>
     response (GET env) =
       Success \<lparr>res_current = (case map (to_result env) rows of [] \<Rightarrow> placeholder | r # _ \<Rightarrow> r),
                res_history = take 20 (map (to_result env) rows),
                res_chartData = rev (map (to_result env) rows),
                res_stats = route_stats (map (to_result env) rows)\<rparr>"
  by (simp add: GET_def Let_def)


lemma route_stats_Nil:
  "route_stats [] =
     \<lparr>temp = \<lparr>min_stat = None, max_stat = None, avg_stat = None\<rparr>,
      humid = \<lparr>min_stat = None, max_stat = None, avg_stat = None\<rparr>\<rparr>"
  by (simp add: route_stats_def route_metric_of_def route_temps_def route_humids_def)

text \<open>
  C10. When the query completes without rows, the route answers with a snapshot, not with
  an error: its current sample is the placeholder (temperature and humidity \<open>null\<close>,
  light status \<open>unknown\<close>, timestamp \<open>-\<close>), its history and chart data are empty
  and its six statistics are \<open>null\<close>. In every snapshot the history is the first 20
  results, the newest rows of a result that comes newest first.
\<close>

theorem empty_history_snapshot:
  "(queryRows env (flux_query (INFLUX_BUCKET env)) = Completed [] \<longrightarrow>
      response (GET env) =
        Success \<lparr>res_current = \<lparr>temperature = Null, humidity = Null, light_status = ''unknown'',
                                light_value = Undefined, timestamp = ''-'', time = Undefined\<rparr>,
                 res_history = [],
                 res_chartData = [],
                 res_stats = \<lparr>temp = \<lparr>min_stat = None, max_stat = None, avg_stat = None\<rparr>,
                              humid = \<lparr>min_stat = None, max_stat = None, avg_stat = None\<rparr>\<rparr>\<rparr>)
   \<and> (queryRows env (flux_query (INFLUX_BUCKET env)) = Completed rows \<longrightarrow>
        (\<exists>s. response (GET env) = Success s
           \<and> res_history s = take 20 (map (to_result env) rows)
           \<and> length (res_history s) \<le> 20))"
  by (simp add: GET_Completed route_stats_Nil placeholder_def)

theorem empty_history_snapshot_witness:
  "queryRows \<lparr>INFLUX_BUCKET = ''sensors'', queryRows = (\<lambda>q. Completed []),
              toLocaleString = (\<lambda>t :: nat. ''d''), toLocaleTimeString = (\<lambda>t. ''t'')\<rparr>
     (flux_query ''sensors'') = Completed []
   \<and> response (GET \<lparr>INFLUX_BUCKET = ''sensors'', queryRows = (\<lambda>q. Completed []),
                     toLocaleString = (\<lambda>t :: nat. ''d''), toLocaleTimeString = (\<lambda>t. ''t'')\<rparr>)
     = Success \<lparr>res_current = placeholder, res_history = [], res_chartData = [],
                res_stats = \<lparr>temp = \<lparr>min_stat = None, max_stat = None, avg_stat = None\<rparr>,
                             humid = \<lparr>min_stat = None, max_stat = None, avg_stat = None\<rparr>\<rparr>\<rparr>"
  using empty_history_snapshot
    [of "\<lparr>INFLUX_BUCKET = ''sensors'', queryRows = (\<lambda>q. Completed []),
           toLocaleString = (\<lambda>t :: nat. ''d''), toLocaleTimeString = (\<lambda>t. ''t'')\<rparr>" "[]"]
  by (simp add: placeholder_def)

section \<open>Failure of the history query\<close>

lemma fetchHistory_Failure: "fetchHistory st (Resolved (body_of (Failure msg code))) = st"
  by simp



section \<open>The history query and the chart data\<close>

lemma sorted_rev_newest_first:
  fixes ts :: "'a :: linorder list"
  shows "sorted_wrt (\<lambda>a b. b \<le> a) ts \<Longrightarrow> sorted (rev ts)"
  by (simp add: sorted_wrt_rev)

lemma flux_range: "sublist ''|> range(start: -6h)'' (flux_query b)"
  unfolding flux_query_def sublist_def
  by (rule exI [of _ "[newline] @ ''      from(bucket: \"'' @ b @ ''\")'' @ [newline] @ ''        ''"])
     (rule exI, simp)

lemma flux_sort: "sublist ''|> sort(columns: [\"_time\"], desc: true)'' (flux_query b)"
  unfolding flux_query_def sublist_def
  by (rule exI [of _ "[newline] @ ''      from(bucket: \"'' @ b @ ''\")'' @
        [newline] @ ''        |> range(start: -6h)'' @
        [newline] @ ''        |> filter(fn: (r) => r._measurement == \"environment\")'' @
        [newline] @ ''        |> pivot(rowKey: [\"_time\"], columnKey: [\"_field\"], valueColumn: \"_value\")'' @
        [newline] @ ''        ''"])
     (rule exI, simp)

lemma flux_limit: "sublist ''|> limit(n: 500)'' (flux_query b)"
  unfolding flux_query_def sublist_def
  by (rule exI [of _ "[newline] @ ''      from(bucket: \"'' @ b @ ''\")'' @
        [newline] @ ''        |> range(start: -6h)'' @
        [newline] @ ''        |> filter(fn: (r) => r._measurement == \"environment\")'' @
        [newline] @ ''        |> pivot(rowKey: [\"_time\"], columnKey: [\"_field\"], valueColumn: \"_value\")'' @
        [newline] @ ''        |> sort(columns: [\"_time\"], desc: true)'' @
        [newline] @ ''        ''"])
     (rule exI, simp)

lemma fetchHistory_Success:
  "chartData (fetchHistory st (Resolved (body_of (Success s)))) = map via_json (res_chartData s)"
  by simp

text \<open>
  C7. One call of the route sends exactly one query. Its text restricts the range to the
  last six hours, sorts by time with the newest row first and limits the result to 500
  rows. When the query completes, the chart data of the snapshot is the list of results
  reversed, which is the list of the rows reversed, and this is the window the dashboard
  holds after its bootstrap; rows that come newest first are then in chronological order.
\<close>

theorem history_query_and_chart_order:
  fixes env :: "('t :: linorder) influx"
  shows
  "queries (GET env) = [flux_query (INFLUX_BUCKET env)]
   \<and> sublist ''|> range(start: -6h)'' (flux_query (INFLUX_BUCKET env))
   \<and> sublist ''|> sort(columns: [\"_time\"], desc: true)'' (flux_query (INFLUX_BUCKET env))
   \<and> sublist ''|> limit(n: 500)'' (flux_query (INFLUX_BUCKET env))
   \<and> (queryRows env (flux_query (INFLUX_BUCKET env)) = Completed rows \<longrightarrow>
        (\<exists>s. response (GET env) = Success s
           \<and> res_chartData s = rev (map (to_result env) rows)
           \<and> res_chartData s = map (to_result env) (rev rows))
        \<and> chartData (fetchHistory st (Resolved (body_of (response (GET env)))))
            = map via_json (map (to_result env) (rev rows)))
   \<and> (sorted_wrt (\<lambda>a b. r_time b \<le> r_time a) rows \<longrightarrow> sorted (map r_time (rev rows)))"
proof (intro conjI impI)
  show "queries (GET env) = [flux_query (INFLUX_BUCKET env)]"
    by (rule GET_queries)
next
  assume completed: "queryRows env (flux_query (INFLUX_BUCKET env)) = Completed rows"
  show "\<exists>s. response (GET env) = Success s
           \<and> res_chartData s = rev (map (to_result env) rows)
           \<and> res_chartData s = map (to_result env) (rev rows)"
    by (simp add: GET_Completed [OF completed] rev_map)
  show "chartData (fetchHistory st (Resolved (body_of (response (GET env)))))
          = map via_json (map (to_result env) (rev rows))"
    by (simp add: GET_Completed [OF completed] rev_map)
next
  assume "sorted_wrt (\<lambda>a b. r_time b \<le> r_time a) rows"
  then have "sorted_wrt (\<lambda>a b. b \<le> a) (map r_time rows)"
    by (simp add: sorted_wrt_map)
  then have "sorted (rev (map r_time rows))"
    by (rule sorted_rev_newest_first)
  then show "sorted (map r_time (rev rows))"
    by (simp add: rev_map)
qed (rule flux_range flux_sort flux_limit)+

theorem history_query_and_chart_order_witness:
  "queryRows
     \<lparr>INFLUX_BUCKET = ''sensors'',
      queryRows = (\<lambda>q. Completed
        [\<lparr>r_time = 2 :: nat, r_temperature = Val (Fin 22), r_humidity = Null,
          r_light_status = Val ''dark'', r_light_value = Val (Fin 0)\<rparr>,
         \<lparr>r_time = 1, r_temperature = Val (Fin 21), r_humidity = Null,
          r_light_status = Val ''bright'', r_light_value = Val (Fin 1)\<rparr>]),
      toLocaleString = (\<lambda>t. if t = 1 then ''one'' else ''two''),
      toLocaleTimeString = (\<lambda>t. ''t'')\<rparr>
     (flux_query ''sensors'')
     = Completed
        [\<lparr>r_time = 2, r_temperature = Val (Fin 22), r_humidity = Null,
          r_light_status = Val ''dark'', r_light_value = Val (Fin 0)\<rparr>,
         \<lparr>r_time = 1, r_temperature = Val (Fin 21), r_humidity = Null,
          r_light_status = Val ''bright'', r_light_value = Val (Fin 1)\<rparr>]
   \<and> sorted_wrt (\<lambda>a b. r_time b \<le> r_time a)
        [\<lparr>r_time = 2 :: nat, r_temperature = Val (Fin 22), r_humidity = Null,
          r_light_status = Val ''dark'', r_light_value = Val (Fin 0)\<rparr>,
         \<lparr>r_time = 1, r_temperature = Val (Fin 21), r_humidity = Null,
          r_light_status = Val ''bright'', r_light_value = Val (Fin 1)\<rparr>]
   \<and> map timestamp (chartData (fetchHistory initial (Resolved (body_of (response (GET
        \<lparr>INFLUX_BUCKET = ''sensors'',
         queryRows = (\<lambda>q. Completed
           [\<lparr>r_time = 2 :: nat, r_temperature = Val (Fin 22), r_humidity = Null,
             r_light_status = Val ''dark'', r_light_value = Val (Fin 0)\<rparr>,
            \<lparr>r_time = 1, r_temperature = Val (Fin 21), r_humidity = Null,
             r_light_status = Val ''bright'', r_light_value = Val (Fin 1)\<rparr>]),
         toLocaleString = (\<lambda>t. if t = 1 then ''one'' else ''two''),
         toLocaleTimeString = (\<lambda>t. ''t'')\<rparr>))))))
     = [''one'', ''two'']"
proof -
  let ?rows = "[\<lparr>r_time = 2 :: nat, r_temperature = Val (Fin 22), r_humidity = Null,
          r_light_status = Val ''dark'', r_light_value = Val (Fin 0)\<rparr>,
         \<lparr>r_time = 1, r_temperature = Val (Fin 21), r_humidity = Null,
          r_light_status = Val ''bright'', r_light_value = Val (Fin 1)\<rparr>]"
  let ?env = "\<lparr>INFLUX_BUCKET = ''sensors'', queryRows = (\<lambda>q. Completed ?rows),
      toLocaleString = (\<lambda>t. if t = 1 then ''one'' else ''two''),
      toLocaleTimeString = (\<lambda>t. ''t'')\<rparr>"
  have q: "queryRows ?env (flux_query (INFLUX_BUCKET ?env)) = Completed ?rows"
    by simp
  have "chartData (fetchHistory initial (Resolved (body_of (response (GET ?env)))))
          = map via_json (map (to_result ?env) (rev ?rows))"
    using history_query_and_chart_order [of ?env ?rows initial] q by blast
  then have "map timestamp (chartData (fetchHistory initial (Resolved (body_of (response (GET ?env))))))
          = [''one'', ''two'']"
    by (simp add: via_json_def to_result_def)
  then show ?thesis
    by simp
qed

section \<open>Light status\<close>

text \<open>
  C3, as the code has it. In the message handler a payload whose \<open>light_status\<close> is
  missing, \<open>null\<close> or empty gets \<open>dark\<close> when its \<open>light_value\<close> is exactly
  \<open>0\<close> and \<open>bright\<close> otherwise, also when \<open>light_value\<close> is missing; a
  \<open>light_status\<close> that is present is kept. A history row whose \<open>light_status\<close> is
  missing gets \<open>unknown\<close> whatever its \<open>light_value\<close>; \<open>unknown\<close> is also the
  light status of the initial sample and of the placeholder of the route.
\<close>

theorem light_status_normalization:
  "(\<not> truthy_string (p_light_status p) \<longrightarrow>
      light_status (newData p c)
        = (if p_light_value p = Val (Fin 0) then ''dark'' else ''bright''))
   \<and> (truthy_string (p_light_status p) \<longrightarrow> Val (light_status (newData p c)) = p_light_status p)
   \<and> (\<not> truthy_string (r_light_status r) \<longrightarrow> light_status (to_result env r) = ''unknown'')
   \<and> (truthy_string (r_light_status r) \<longrightarrow> Val (light_status (to_result env r)) = r_light_status r)
   \<and> light_status (data initial) = ''unknown''
   \<and> light_status placeholder = ''unknown''"
  by (cases "p_light_status p"; cases "r_light_status r")
     (simp_all add: newData_def to_result_def or_else_def initial_def placeholder_def)

theorem light_status_normalization_witness:
  "\<not> truthy_string (p_light_status (no_fields\<lparr>p_light_value := Val (Fin 0)\<rparr>))
   \<and> light_status (newData (no_fields\<lparr>p_light_value := Val (Fin 0)\<rparr>)
        \<lparr>now_locale_string = ''d'', now_locale_time = ''t''\<rparr>) = ''dark''
   \<and> truthy_string (r_light_status
        \<lparr>r_time = 0 :: nat, r_temperature = Null, r_humidity = Null,
         r_light_status = Val ''dim'', r_light_value = Val (Fin 0)\<rparr>)
   \<and> light_status (to_result
        \<lparr>INFLUX_BUCKET = ''sensors'', queryRows = (\<lambda>q. Completed []),
         toLocaleString = (\<lambda>t :: nat. ''d''), toLocaleTimeString = (\<lambda>t. ''t'')\<rparr>
        \<lparr>r_time = 0 :: nat, r_temperature = Null, r_humidity = Null,
         r_light_status = Val ''dim'', r_light_value = Val (Fin 0)\<rparr>) = ''dim''
   \<and> truthy_string (p_light_status (no_fields\<lparr>p_light_status := Val ''dim''\<rparr>))
   \<and> light_status (newData (no_fields\<lparr>p_light_status := Val ''dim''\<rparr>)
        \<lparr>now_locale_string = ''d'', now_locale_time = ''t''\<rparr>) = ''dim''
   \<and> \<not> truthy_string (r_light_status
        \<lparr>r_time = 0 :: nat, r_temperature = Null, r_humidity = Null,
         r_light_status = Null, r_light_value = Val (Fin 0)\<rparr>)
   \<and> light_status (to_result
        \<lparr>INFLUX_BUCKET = ''sensors'', queryRows = (\<lambda>q. Completed []),
         toLocaleString = (\<lambda>t :: nat. ''d''), toLocaleTimeString = (\<lambda>t. ''t'')\<rparr>
        \<lparr>r_time = 0 :: nat, r_temperature = Null, r_humidity = Null,
         r_light_status = Null, r_light_value = Val (Fin 0)\<rparr>) = ''unknown''"
  using light_status_normalization
    [of "no_fields\<lparr>p_light_value := Val (Fin 0)\<rparr>"
        "\<lparr>now_locale_string = ''d'', now_locale_time = ''t''\<rparr>"
        "\<lparr>r_time = 0 :: nat, r_temperature = Null, r_humidity = Null,
          r_light_status = Val ''dim'', r_light_value = Val (Fin 0)\<rparr>"
        "\<lparr>INFLUX_BUCKET = ''sensors'', queryRows = (\<lambda>q. Completed []),
          toLocaleString = (\<lambda>t :: nat. ''d''), toLocaleTimeString = (\<lambda>t. ''t'')\<rparr>"]
    light_status_normalization
    [of "no_fields\<lparr>p_light_status := Val ''dim''\<rparr>"
        "\<lparr>now_locale_string = ''d'', now_locale_time = ''t''\<rparr>"
        "\<lparr>r_time = 0 :: nat, r_temperature = Null, r_humidity = Null,
          r_light_status = Null, r_light_value = Val (Fin 0)\<rparr>"
        "\<lparr>INFLUX_BUCKET = ''sensors'', queryRows = (\<lambda>q. Completed []),
          toLocaleString = (\<lambda>t :: nat. ''d''), toLocaleTimeString = (\<lambda>t. ''t'')\<rparr>"]
  by (simp add: no_fields_def)

text \<open>
  C3 as stated fails twice: a payload without light fields is \<open>bright\<close>, not
  \<open>unknown\<close>, and a history row with \<open>light_value = 0\<close> and no \<open>light_status\<close> is
  \<open>unknown\<close>, not \<open>dark\<close>.
\<close>

theorem light_status_counterexample:
  "light_status (newData
      \<lparr>p_temperature = Val (Fin 21), p_humidity = Val (Fin 50), p_light_status = Undefined,
       p_light_value = Undefined, p_timestamp = Undefined\<rparr>
      \<lparr>now_locale_string = ''d'', now_locale_time = ''t''\<rparr>) = ''bright''
   \<and> light_status (newData
      \<lparr>p_temperature = Val (Fin 21), p_humidity = Val (Fin 50), p_light_status = Undefined,
       p_light_value = Undefined, p_timestamp = Undefined\<rparr>
      \<lparr>now_locale_string = ''d'', now_locale_time = ''t''\<rparr>) \<noteq> ''unknown''
   \<and> light_status (to_result
      \<lparr>INFLUX_BUCKET = ''sensors'', queryRows = (\<lambda>q. Completed []),
       toLocaleString = (\<lambda>t :: nat. ''d''), toLocaleTimeString = (\<lambda>t. ''t'')\<rparr>
      \<lparr>r_time = 0, r_temperature = Val (Fin 21), r_humidity = Val (Fin 50),
       r_light_status = Undefined, r_light_value = Val (Fin 0)\<rparr>) = ''unknown''
   \<and> light_status (to_result
      \<lparr>INFLUX_BUCKET = ''sensors'', queryRows = (\<lambda>q. Completed []),
       toLocaleString = (\<lambda>t :: nat. ''d''), toLocaleTimeString = (\<lambda>t. ''t'')\<rparr>
      \<lparr>r_time = 0, r_temperature = Val (Fin 21), r_humidity = Val (Fin 50),
       r_light_status = Undefined, r_light_value = Val (Fin 0)\<rparr>) \<noteq> ''dark''"
  by (simp add: newData_def to_result_def or_else_def)

section \<open>The sentinel\<close>

lemma dot_in_fixed_digits: "CHR ''.'' \<in> set (fixed_digits a)"
  by (simp add: fixed_digits_def Let_def)

lemma e_in_exponent_string: "CHR ''e'' \<in> set (exponent_string a)"
  by (simp add: exponent_string_def Let_def)

lemma toFixed1_not_sentinel: "toFixed1 x \<noteq> ''--''"
proof (cases x)
  case (Fin r)
  show ?thesis
  proof (cases "10 ^ 21 \<le> \<bar>r\<bar>")
    case True
    then have "CHR ''e'' \<in> set (toFixed1 x)"
      by (simp add: Fin Let_def e_in_exponent_string)
    then show ?thesis by auto
  next
    case False
    then have "CHR ''.'' \<in> set (toFixed1 x)"
      by (simp add: Fin Let_def dot_in_fixed_digits)
    then show ?thesis by auto
  qed
qed simp_all

text \<open>
  When the list the code filters is empty (\<open>temps.length\<close> resp. \<open>humids.length\<close>
  is \<open>0\<close>), the three statistics of that metric are the sentinel: the string
  \<open>--\<close> in the dashboard, \<open>null\<close> in the route; and \<open>toFixed(1)\<close> prints no
  number as \<open>--\<close>.
\<close>

lemma empty_filter_sentinel:
  "temps xs = [] \<Longrightarrow>
     temp (calculateStats xs) = \<lparr>min_stat = ''--'', max_stat = ''--'', avg_stat = ''--''\<rparr>"
  "humids xs = [] \<Longrightarrow>
     humid (calculateStats xs) = \<lparr>min_stat = ''--'', max_stat = ''--'', avg_stat = ''--''\<rparr>"
  "route_temps xs = [] \<Longrightarrow>
     temp (route_stats xs) = \<lparr>min_stat = None, max_stat = None, avg_stat = None\<rparr>"
  "route_humids xs = [] \<Longrightarrow>
     humid (route_stats xs) = \<lparr>min_stat = None, max_stat = None, avg_stat = None\<rparr>"
  by (simp_all add: calculateStats_def route_stats_def metric_of_def route_metric_of_def)

text \<open>The filter of the dashboard removes \<open>null\<close> only: its list is empty exactly
  when every sample has \<open>null\<close> for the metric.\<close>

lemma temps_empty_iff: "temps xs = [] \<longleftrightarrow> (\<forall>x \<in> set xs. temperature x = Null)"
  by (auto simp: temps_def filter_empty_conv)

lemma humids_empty_iff: "humids xs = [] \<longleftrightarrow> (\<forall>x \<in> set xs. humidity x = Null)"
  by (auto simp: humids_def filter_empty_conv)

text \<open>
  C4 at a message without the key \<open>temperature\<close>, the first one of a session. No sample
  of the window has a temperature, but the filter of \<open>calculateStats\<close> keeps the
  \<open>undefined\<close> value, so the three temperature statistics are \<open>NaN\<close> and not the
  sentinel; the humidity statistics are those of the one reading. The filter of the route
  drops the same sample and gives the sentinel \<open>null\<close>.
\<close>

theorem missing_temperature_prints_NaN:
  "temperature (data (handle
      (\<lambda>m. JObject \<lparr>p_temperature = Undefined, p_humidity = Val (Fin 55),
                       p_light_status = Undefined, p_light_value = Val (Fin 1),
                       p_timestamp = Undefined\<rparr>)
      initial
      (Message ''sensors/data'' ''{humidity: 55, light_value: 1}''
         \<lparr>now_locale_string = ''d'', now_locale_time = ''t''\<rparr>))) = Undefined
   \<and> map temperature (chartData (handle
      (\<lambda>m. JObject \<lparr>p_temperature = Undefined, p_humidity = Val (Fin 55),
                       p_light_status = Undefined, p_light_value = Val (Fin 1),
                       p_timestamp = Undefined\<rparr>)
      initial
      (Message ''sensors/data'' ''{humidity: 55, light_value: 1}''
         \<lparr>now_locale_string = ''d'', now_locale_time = ''t''\<rparr>))) = [Undefined]
   \<and> stats (handle
      (\<lambda>m. JObject \<lparr>p_temperature = Undefined, p_humidity = Val (Fin 55),
                       p_light_status = Undefined, p_light_value = Val (Fin 1),
                       p_timestamp = Undefined\<rparr>)
      initial
      (Message ''sensors/data'' ''{humidity: 55, light_value: 1}''
         \<lparr>now_locale_string = ''d'', now_locale_time = ''t''\<rparr>))
     = \<lparr>temp = \<lparr>min_stat = ''NaN'', max_stat = ''NaN'', avg_stat = ''NaN''\<rparr>,
        humid = \<lparr>min_stat = ''55.0'', max_stat = ''55.0'', avg_stat = ''55.0''\<rparr>\<rparr>
   \<and> temp (route_stats (chartData (handle
      (\<lambda>m. JObject \<lparr>p_temperature = Undefined, p_humidity = Val (Fin 55),
                       p_light_status = Undefined, p_light_value = Val (Fin 1),
                       p_timestamp = Undefined\<rparr>)
      initial
      (Message ''sensors/data'' ''{humidity: 55, light_value: 1}''
         \<lparr>now_locale_string = ''d'', now_locale_time = ''t''\<rparr>))))
     = \<lparr>min_stat = None, max_stat = None, avg_stat = None\<rparr>"
  by (simp add: on_message_def accept_def newData_def initial_def slice_last_def or_else_def
      calculateStats_def temps_def humids_def metric_of_def route_stats_def route_temps_def
      route_metric_of_def Math_min_def Math_max_def reduce_sum_def number_eval)

section \<open>Zero readings\<close>

text \<open>
  C2 at a reading of \<open>0\<close>. The route keeps the truthy temperatures, so the row is
  dropped and the temperature statistics of the snapshot are \<open>null\<close>, while
  \<open>calculateStats\<close> on the chart data of the same snapshot keeps the reading and gives
  \<open>0.0\<close> three times.
\<close>

theorem zero_reading_dropped_by_route:
  "\<exists>s. response (GET
          \<lparr>INFLUX_BUCKET = ''sensors'',
           queryRows = (\<lambda>q. Completed
             [\<lparr>r_time = 0 :: nat, r_temperature = Val (Fin 0), r_humidity = Val (Fin 55),
               r_light_status = Val ''bright'', r_light_value = Val (Fin 1)\<rparr>]),
           toLocaleString = (\<lambda>t. ''d''), toLocaleTimeString = (\<lambda>t. ''t'')\<rparr>) = Success s
       \<and> temperature (res_current s) = Val (Fin 0)
       \<and> temp (res_stats s) = \<lparr>min_stat = None, max_stat = None, avg_stat = None\<rparr>
       \<and> humid (res_stats s)
           = \<lparr>min_stat = Some ''55.0'', max_stat = Some ''55.0'', avg_stat = Some ''55.0''\<rparr>
       \<and> temp (calculateStats (res_chartData s))
           = \<lparr>min_stat = ''0.0'', max_stat = ''0.0'', avg_stat = ''0.0''\<rparr>"
  by (simp add: GET_def to_result_def route_stats_def route_temps_def route_humids_def
      route_metric_of_def calculateStats_def temps_def metric_of_def Math_min_def Math_max_def
      reduce_sum_def number_eval)

text \<open>
  The dashboard in turn keeps a sample whose temperature key is missing, since
  \<open>undefined !== null\<close>, and prints \<open>NaN\<close>; the route drops it.
\<close>

lemma missing_reading_kept_by_dashboard:
  "temp (calculateStats [(reading 0)\<lparr>temperature := Undefined\<rparr>])
     = \<lparr>min_stat = ''NaN'', max_stat = ''NaN'', avg_stat = ''NaN''\<rparr>
   \<and> temp (route_stats [(reading 0)\<lparr>temperature := Undefined\<rparr>])
     = \<lparr>min_stat = None, max_stat = None, avg_stat = None\<rparr>"
  by (simp add: route_stats_def route_temps_def route_metric_of_def calculateStats_def temps_def
      metric_of_def reading_def Math_min_def Math_max_def reduce_sum_def number_eval)

section \<open>Order of the samples\<close>

text \<open>The four temperatures of the next theorem are doubles: \<open>20\<close>, \<open>20.1\<close>,
  \<open>20.2\<close> and \<open>21.5\<close> as \<open>JSON.parse\<close> reads them.\<close>

lemma doubles_of_counterexample:
  "is_double 20 \<and> is_double (2828823515942093 / 140737488355328)
   \<and> is_double (5685794529555251 / 281474976710656) \<and> is_double (43 / 2)"
  by (simp add: number_eval)

text \<open>
  C9 as stated fails: the temperatures \<open>20\<close>, \<open>20.1\<close>, \<open>20.2\<close>, \<open>21.5\<close>
  have the average \<open>20.4\<close> in this order and \<open>20.5\<close> in the reverse order, in the
  dashboard and in the route, because the sum is rounded after every addition.
\<close>

theorem average_depends_on_order:
  "mset (rev [reading 20, reading (2828823515942093 / 140737488355328),
              reading (5685794529555251 / 281474976710656), reading (43 / 2)])
     = mset [reading 20, reading (2828823515942093 / 140737488355328),
             reading (5685794529555251 / 281474976710656), reading (43 / 2)]
   \<and> avg_stat (temp (calculateStats
         [reading 20, reading (2828823515942093 / 140737488355328),
          reading (5685794529555251 / 281474976710656), reading (43 / 2)])) = ''20.4''
   \<and> avg_stat (temp (calculateStats
         (rev [reading 20, reading (2828823515942093 / 140737488355328),
               reading (5685794529555251 / 281474976710656), reading (43 / 2)]))) = ''20.5''
   \<and> avg_stat (temp (route_stats
         [reading 20, reading (2828823515942093 / 140737488355328),
          reading (5685794529555251 / 281474976710656), reading (43 / 2)])) = Some ''20.4''
   \<and> avg_stat (temp (route_stats
         (rev [reading 20, reading (2828823515942093 / 140737488355328),
               reading (5685794529555251 / 281474976710656), reading (43 / 2)]))) = Some ''20.5''"
proof -
  let ?a = "2828823515942093 / 140737488355328 :: rat"
  let ?b = "5685794529555251 / 281474976710656 :: rat"
  let ?vs = "[Val (Fin 20), Val (Fin ?a), Val (Fin ?b), Val (Fin (43 / 2))]"
  have fwd: "reduce_sum ?vs = Fin (5756163273732915 / 70368744177664)"
    by (simp add: reduce_sum_def number_eval)
  have bwd: "reduce_sum (rev ?vs) = Fin (1439040818433229 / 17592186044416)"
    by (simp add: reduce_sum_def number_eval)
  have avg_fwd: "toFixed1 (js_div (Fin (5756163273732915 / 70368744177664)) 4) = ''20.4''"
    by (simp add: number_eval)
  have avg_bwd: "toFixed1 (js_div (Fin (1439040818433229 / 17592186044416)) 4) = ''20.5''"
    by (simp add: number_eval)
  have t: "temps [reading 20, reading ?a, reading ?b, reading (43 / 2)] = ?vs"
    and rt: "route_temps [reading 20, reading ?a, reading ?b, reading (43 / 2)] = ?vs"
    and t': "temps (rev [reading 20, reading ?a, reading ?b, reading (43 / 2)]) = rev ?vs"
    and rt': "route_temps (rev [reading 20, reading ?a, reading ?b, reading (43 / 2)]) = rev ?vs"
    by (simp_all add: temps_def route_temps_def reading_def)
  have c1: "avg_stat (temp (calculateStats [reading 20, reading ?a, reading ?b, reading (43 / 2)]))
              = ''20.4''"
    unfolding calculateStats_def t metric_of_def fwd using avg_fwd by simp
  have c2: "avg_stat (temp (calculateStats (rev [reading 20, reading ?a, reading ?b, reading (43 / 2)])))
              = ''20.5''"
    unfolding calculateStats_def t' metric_of_def bwd using avg_bwd by simp
  have c3: "avg_stat (temp (route_stats [reading 20, reading ?a, reading ?b, reading (43 / 2)]))
              = Some ''20.4''"
    unfolding route_stats_def rt route_metric_of_def fwd using avg_fwd by simp
  have c4: "avg_stat (temp (route_stats (rev [reading 20, reading ?a, reading ?b, reading (43 / 2)])))
              = Some ''20.5''"
    unfolding route_stats_def rt' route_metric_of_def bwd using avg_bwd by simp
  have m: "mset (rev [reading 20, reading ?a, reading ?b, reading (43 / 2)])
             = mset [reading 20, reading ?a, reading ?b, reading (43 / 2)]"
    by (rule mset_rev)
  from m c1 c2 c3 c4 show ?thesis
    by blast
qed

subsection \<open>Minimum and maximum\<close>

lemma fold_lower_NaN: "fold lower xs NaN = NaN"
  by (induction xs) (simp_all add: lower_def)

lemma fold_higher_NaN: "fold higher xs NaN = NaN"
  by (induction xs) (simp_all add: higher_def)

lemma min_loop_fold: "lowest \<noteq> NaN \<Longrightarrow> min_loop lowest xs = fold lower xs lowest"
proof (induction xs arbitrary: lowest)
  case Nil
  then show ?case by simp
next
  case (Cons x xs)
  show ?case
  proof (cases "x = NaN")
    case True
    then have "lower x lowest = NaN" by (simp add: lower_def)
    with True show ?thesis by (simp add: fold_lower_NaN)
  next
    case False
    with Cons.prems have "lower x lowest = (if js_less x lowest then x else lowest)"
      and "(if js_less x lowest then x else lowest) \<noteq> NaN"
      by (simp_all add: lower_def)
    with False Cons.IH [of "if js_less x lowest then x else lowest"] show ?thesis
      by simp
  qed
qed

lemma max_loop_fold: "highest \<noteq> NaN \<Longrightarrow> max_loop highest xs = fold higher xs highest"
proof (induction xs arbitrary: highest)
  case Nil
  then show ?case by simp
next
  case (Cons x xs)
  show ?case
  proof (cases "x = NaN")
    case True
    then have "higher x highest = NaN" by (simp add: higher_def)
    with True show ?thesis by (simp add: fold_higher_NaN)
  next
    case False
    with Cons.prems have "higher x highest = (if js_less highest x then x else highest)"
      and "(if js_less highest x then x else highest) \<noteq> NaN"
      by (simp_all add: higher_def)
    with False Cons.IH [of "if js_less highest x then x else highest"] show ?thesis
      by simp
  qed
qed

lemma lower_commute: "lower x (lower y z) = lower y (lower x z)"
  by (cases x; cases y; cases z) (auto simp: lower_def)

lemma higher_commute: "higher x (higher y z) = higher y (higher x z)"
  by (cases x; cases y; cases z) (auto simp: higher_def)

lemma Math_min_mset: "mset ys = mset xs \<Longrightarrow> Math_min ys = Math_min xs"
proof -
  assume "mset ys = mset xs"
  then have "mset xs = mset ys" by simp
  then have "fold lower xs = fold lower ys"
    by (rule fold_multiset_equiv [rotated]) (simp add: fun_eq_iff lower_commute)
  then show ?thesis
    by (simp add: Math_min_def min_loop_fold)
qed

lemma Math_max_mset: "mset ys = mset xs \<Longrightarrow> Math_max ys = Math_max xs"
proof -
  assume "mset ys = mset xs"
  then have "mset xs = mset ys" by simp
  then have "fold higher xs = fold higher ys"
    by (rule fold_multiset_equiv [rotated]) (simp add: fun_eq_iff higher_commute)
  then show ?thesis
    by (simp add: Math_max_def max_loop_fold)
qed

subsection \<open>Exact sums\<close>

lemma foldl_sum_exact:
  "sum_exact acc vs \<Longrightarrow>
     foldl (\<lambda>a b. js_add a (to_number b)) (Fin acc) vs
       = Fin (acc + sum_list (map finite_value vs))"
  by (induction acc vs rule: sum_exact.induct) simp_all

lemma reduce_sum_exact:
  "sum_exact 0 vs \<Longrightarrow> reduce_sum vs = Fin (sum_list (map finite_value vs))"
  using foldl_sum_exact [of 0 vs] by (simp add: reduce_sum_def)

lemma sum_list_mset_cong:
  fixes f :: "'a \<Rightarrow> rat"
  assumes "mset ys = mset xs"
  shows "sum_list (map f ys) = sum_list (map f xs)"
proof -
  have "sum_list (map f ys) = sum_mset (image_mset f (mset ys))"
    by (metis mset_map sum_mset_sum_list)
  also have "\<dots> = sum_mset (image_mset f (mset xs))"
    by (simp add: assms)
  also have "\<dots> = sum_list (map f xs)"
    by (metis mset_map sum_mset_sum_list)
  finally show ?thesis .
qed

lemma metric_of_mset:
  assumes "mset ws = mset vs"
  shows "min_stat (metric_of ws) = min_stat (metric_of vs)"
    and "max_stat (metric_of ws) = max_stat (metric_of vs)"
    and "sum_exact 0 vs \<Longrightarrow> sum_exact 0 ws \<Longrightarrow> avg_stat (metric_of ws) = avg_stat (metric_of vs)"
proof -
  from assms have len: "length ws = length vs"
    by (rule mset_eq_length)
  from assms have nums: "mset (map to_number ws) = mset (map to_number vs)"
    by simp
  show "min_stat (metric_of ws) = min_stat (metric_of vs)"
    by (simp add: metric_of_def len Math_min_mset [OF nums])
  show "max_stat (metric_of ws) = max_stat (metric_of vs)"
    by (simp add: metric_of_def len Math_max_mset [OF nums])
  show "avg_stat (metric_of ws) = avg_stat (metric_of vs)"
    if "sum_exact 0 vs" "sum_exact 0 ws"
    using that by (simp add: metric_of_def len reduce_sum_exact sum_list_mset_cong [OF assms])
qed

lemma route_metric_of_mset:
  assumes "mset ws = mset vs"
  shows "min_stat (route_metric_of ws) = min_stat (route_metric_of vs)"
    and "max_stat (route_metric_of ws) = max_stat (route_metric_of vs)"
    and "sum_exact 0 vs \<Longrightarrow> sum_exact 0 ws \<Longrightarrow>
           avg_stat (route_metric_of ws) = avg_stat (route_metric_of vs)"
proof -
  from assms have len: "length ws = length vs"
    by (rule mset_eq_length)
  from assms have nums: "mset (map to_number ws) = mset (map to_number vs)"
    by simp
  show "min_stat (route_metric_of ws) = min_stat (route_metric_of vs)"
    by (simp add: route_metric_of_def len Math_min_mset [OF nums])
  show "max_stat (route_metric_of ws) = max_stat (route_metric_of vs)"
    by (simp add: route_metric_of_def len Math_max_mset [OF nums])
  show "avg_stat (route_metric_of ws) = avg_stat (route_metric_of vs)"
    if "sum_exact 0 vs" "sum_exact 0 ws"
    using that by (simp add: route_metric_of_def len reduce_sum_exact sum_list_mset_cong [OF assms])
qed

lemma series_mset:
  assumes "mset ys = mset xs"
  shows "mset (temps ys) = mset (temps xs)" "mset (humids ys) = mset (humids xs)"
    "mset (route_temps ys) = mset (route_temps xs)"
    "mset (route_humids ys) = mset (route_humids xs)"
  using assms by (simp_all add: temps_def humids_def route_temps_def route_humids_def)

text \<open>
  C9, as the code has it. The statistics are a function of the sample sequence. For a
  permutation of the sequence the minimum and the maximum of each metric are the same,
  in the dashboard and in the route; the average is the same when the sums from the left
  of both orders are exact, that is when all values are finite and no partial sum is
  rounded.
\<close>

theorem stats_order_independence:
  assumes "mset ys = mset xs"
  shows "min_stat (temp (calculateStats ys)) = min_stat (temp (calculateStats xs))
       \<and> max_stat (temp (calculateStats ys)) = max_stat (temp (calculateStats xs))
       \<and> min_stat (humid (calculateStats ys)) = min_stat (humid (calculateStats xs))
       \<and> max_stat (humid (calculateStats ys)) = max_stat (humid (calculateStats xs))
       \<and> min_stat (temp (route_stats ys)) = min_stat (temp (route_stats xs))
       \<and> max_stat (temp (route_stats ys)) = max_stat (temp (route_stats xs))
       \<and> min_stat (humid (route_stats ys)) = min_stat (humid (route_stats xs))
       \<and> max_stat (humid (route_stats ys)) = max_stat (humid (route_stats xs))
       \<and> (sum_exact 0 (temps xs) \<and> sum_exact 0 (temps ys) \<longrightarrow>
            avg_stat (temp (calculateStats ys)) = avg_stat (temp (calculateStats xs)))
       \<and> (sum_exact 0 (humids xs) \<and> sum_exact 0 (humids ys) \<longrightarrow>
            avg_stat (humid (calculateStats ys)) = avg_stat (humid (calculateStats xs)))
       \<and> (sum_exact 0 (route_temps xs) \<and> sum_exact 0 (route_temps ys) \<longrightarrow>
            avg_stat (temp (route_stats ys)) = avg_stat (temp (route_stats xs)))
       \<and> (sum_exact 0 (route_humids xs) \<and> sum_exact 0 (route_humids ys) \<longrightarrow>
            avg_stat (humid (route_stats ys)) = avg_stat (humid (route_stats xs)))"
  using metric_of_mset [OF series_mset(1) [OF assms]]
    metric_of_mset [OF series_mset(2) [OF assms]]
    route_metric_of_mset [OF series_mset(3) [OF assms]]
    route_metric_of_mset [OF series_mset(4) [OF assms]]
  by (simp add: calculateStats_def route_stats_def)

theorem stats_order_independence_witness:
  "mset [reading 3, reading 1, reading 2] = mset [reading 1, reading 2, reading 3]
   \<and> sum_exact 0 (temps [reading 1, reading 2, reading 3])
   \<and> sum_exact 0 (temps [reading 3, reading 1, reading 2])
   \<and> sum_exact 0 (humids [reading 1, reading 2, reading 3])
   \<and> sum_exact 0 (humids [reading 3, reading 1, reading 2])
   \<and> sum_exact 0 (route_temps [reading 1, reading 2, reading 3])
   \<and> sum_exact 0 (route_temps [reading 3, reading 1, reading 2])
   \<and> sum_exact 0 (route_humids [reading 1, reading 2, reading 3])
   \<and> sum_exact 0 (route_humids [reading 3, reading 1, reading 2])
   \<and> temp (calculateStats [reading 1, reading 2, reading 3])
       = \<lparr>min_stat = ''1.0'', max_stat = ''3.0'', avg_stat = ''2.0''\<rparr>
   \<and> min_stat (temp (calculateStats [reading 3, reading 1, reading 2])) = ''1.0''
   \<and> max_stat (temp (calculateStats [reading 3, reading 1, reading 2])) = ''3.0''
   \<and> avg_stat (temp (calculateStats [reading 3, reading 1, reading 2])) = ''2.0''"
proof -
  let ?xs = "[reading 1, reading 2, reading 3]"
  let ?ys = "[reading 3, reading 1, reading 2]"
  have m: "mset ?ys = mset ?xs"
    by (simp add: add.commute)
  have t: "temps ?xs = [Val (Fin 1), Val (Fin 2), Val (Fin 3)]"
    "temps ?ys = [Val (Fin 3), Val (Fin 1), Val (Fin 2)]"
    "route_temps ?xs = [Val (Fin 1), Val (Fin 2), Val (Fin 3)]"
    "route_temps ?ys = [Val (Fin 3), Val (Fin 1), Val (Fin 2)]"
    "humids ?xs = []" "humids ?ys = []" "route_humids ?xs = []" "route_humids ?ys = []"
    by (simp_all add: temps_def humids_def route_temps_def route_humids_def reading_def)
  have e: "sum_exact 0 [Val (Fin 1), Val (Fin 2), Val (Fin 3)]"
    "sum_exact 0 [Val (Fin 3), Val (Fin 1), Val (Fin 2)]"
    by (simp_all add: number_eval)
  have v: "temp (calculateStats ?xs)
             = \<lparr>min_stat = ''1.0'', max_stat = ''3.0'', avg_stat = ''2.0''\<rparr>"
    unfolding calculateStats_def t
    by (simp add: metric_of_def Math_min_def Math_max_def reduce_sum_def number_eval)
  from stats_order_independence [OF m] e t v show ?thesis
    by simp
qed

section \<open>The window over whole sessions\<close>









end
